theory Spec2Isabelle
  imports Complex_Main "HOL-Library.Sublist" "HOL-Library.Multiset"
begin

section \<open>Data model\<close>

text \<open>
  The dashboard (\<^verbatim>\<open>app.py\<close>) works on one pandas DataFrame. A DataFrame is modelled as
  the list of its rows, in row order. The columns are the seven columns the functions of
  \<^verbatim>\<open>app.py\<close> read: \<^verbatim>\<open>country\<close> (dtype object), \<^verbatim>\<open>date\<close> (datetime64, here a day
  number) and five numeric columns. pandas holds the numeric columns as 64-bit floats;
  they are modelled as real numbers, so sums and quotients are exact, and a missing value
  (NaN) does not occur in a row: \<^verbatim>\<open>load_data\<close> replaces every one by 0 before any other
  function sees the frame.
\<close>

type_synonym day = int

record row =
  country :: string
  date :: day
  total_cases :: real
  total_deaths :: real
  total_vaccinations :: real
  new_cases :: real
  new_deaths :: real

type_synonym dataframe = "row list"

text \<open>
  Exceptions are values. \<open>KeyError\<close> and \<open>TypeError\<close> are what pandas raises;
  \<open>DataUnavailable\<close>, \<open>EmptyDataset\<close> and \<open>InvalidMetric\<close> are the error names of the
  specification's taxonomy. No function of \<^verbatim>\<open>app.py\<close> raises one of the latter three.
\<close>

datatype error =
    KeyError string
  | TypeError string
  | DataUnavailable
  | EmptyDataset
  | InvalidMetric

subsection \<open>Series operations\<close>

text \<open>
  \<^verbatim>\<open>Series.max()\<close> of a datetime column: the largest value, and \<^verbatim>\<open>NaT\<close> (here \<open>None\<close>)
  for a column without values.
\<close>

definition series_max :: "day list \<Rightarrow> day option" where
  "series_max xs = (case xs of [] \<Rightarrow> None | x # rest \<Rightarrow> Some (fold max rest x))"


text \<open>
  The boolean-mask selection \<^verbatim>\<open>df[df['date'] == d]\<close>. A comparison with \<^verbatim>\<open>NaT\<close> is
  false for every row, so the selection on \<open>None\<close> is empty.
\<close>

definition rows_on :: "day option \<Rightarrow> dataframe \<Rightarrow> dataframe" where
  "rows_on d df = filter (\<lambda>r. Some (date r) = d) df"

section \<open>Global statistics\<close>



subsection \<open>Selecting the largest rows\<close>

text \<open>
  \<^verbatim>\<open>nlargest(n, column)\<close> is pandas code; \<^verbatim>\<open>app.py\<close> calls it with the default
  \<^verbatim>\<open>keep='first'\<close>, which pandas documents as "the first n occurrences in order of
  appearance": the rows in descending order of the column, the first \<open>n\<close> of them, and
  among rows with the same value the one that occurs first in the frame comes first.
  pandas' selection sorts the negated values with a stable sort and cuts the result; so
  does the model (\<open>sort_key\<close> is the stable insertion sort of the list library). The
  count \<open>n\<close> is a natural number: the callers pass 15 and 20.
\<close>

definition nlargest_by :: "nat \<Rightarrow> ('a \<Rightarrow> real) \<Rightarrow> 'a list \<Rightarrow> 'a list" where
  "nlargest_by n key xs = take n (sort_key (\<lambda>r. - key r) xs)"

text \<open>
  A column of the frame by its label, \<^verbatim>\<open>df[name]\<close>. A label that is not a column raises
  \<open>KeyError\<close>. The columns differ in dtype, so a column is tagged with it.
\<close>

datatype series =
    ObjectCol "row \<Rightarrow> string"
  | DatetimeCol "row \<Rightarrow> day"
  | FloatCol "row \<Rightarrow> real"

datatype cell = Str string | Date day | Num real

definition column :: "string \<Rightarrow> error + series" where
  "column name =
     (if name = ''country'' then Inr (ObjectCol country)
      else if name = ''date'' then Inr (DatetimeCol date)
      else if name = ''total_cases'' then Inr (FloatCol total_cases)
      else if name = ''total_deaths'' then Inr (FloatCol total_deaths)
      else if name = ''total_vaccinations'' then Inr (FloatCol total_vaccinations)
      else if name = ''new_cases'' then Inr (FloatCol new_cases)
      else if name = ''new_deaths'' then Inr (FloatCol new_deaths)
      else Inl (KeyError name))"

fun cell_of :: "series \<Rightarrow> row \<Rightarrow> cell" where
  "cell_of (ObjectCol f) r = Str (f r)"
| "cell_of (DatetimeCol f) r = Date (f r)"
| "cell_of (FloatCol f) r = Num (f r)"

text \<open>
  \<^verbatim>\<open>DataFrame.nlargest(n, name)\<close>: the column is looked up first (\<open>KeyError\<close>), then its
  dtype is checked: a column of dtype object is refused with \<open>TypeError\<close>, a datetime
  column is ordered by its time stamps, a float column by its values.
\<close>

definition nlargest :: "nat \<Rightarrow> string \<Rightarrow> dataframe \<Rightarrow> error + dataframe" where
  "nlargest n name df =
     (case column name of
        Inl e \<Rightarrow> Inl e
      | Inr (ObjectCol f) \<Rightarrow> Inl (TypeError name)
      | Inr (DatetimeCol f) \<Rightarrow> Inr (nlargest_by n (\<lambda>r. real_of_int (f r)) df)
      | Inr (FloatCol f) \<Rightarrow> Inr (nlargest_by n f df))"

section \<open>Global daily trend\<close>






section \<open>Filtering\<close>

text \<open>
  \<^verbatim>\<open>main\<close>, lines 261 to 265: the sidebar's date input gives a tuple; when it has two
  dates the frame is cut to the rows between them, both ends included, and otherwise
  (the user has picked one date so far) the frame is taken whole.
\<close>

definition df_filtered :: "dataframe \<Rightarrow> day list \<Rightarrow> dataframe" where
  "df_filtered df date_range =
     (case date_range of
        [start_date, end_date] \<Rightarrow> filter (\<lambda>r. start_date \<le> date r \<and> date r \<le> end_date) df
      | _ \<Rightarrow> df)"

text \<open>
  \<^verbatim>\<open>create_country_comparison_chart\<close>, line 144: \<^verbatim>\<open>df[df['country'].isin(countries)]\<close>.
  \<^verbatim>\<open>main\<close> passes it the date-filtered frame and the selected countries.
\<close>

definition country_data :: "dataframe \<Rightarrow> string list \<Rightarrow> dataframe" where
  "country_data df countries = filter (\<lambda>r. country r \<in> set countries) df"

section \<open>Rankings\<close>

text \<open>
  The chart builders return a plotly figure drawn from a table; the model returns that
  table. \<^verbatim>\<open>create_top_countries_chart\<close> keeps the two columns \<^verbatim>\<open>['country', metric]\<close>.
\<close>

definition create_top_countries_chart ::
    "dataframe \<Rightarrow> string \<Rightarrow> nat \<Rightarrow> error + (string \<times> cell) list" where
  "create_top_countries_chart df metric top_n =
     (let latest_date = series_max (map date df);
          latest_data = rows_on latest_date df
      in case nlargest top_n metric latest_data of
           Inl e \<Rightarrow> Inl e
         | Inr largest \<Rightarrow>
             (case column metric of
                Inl e \<Rightarrow> Inl e
              | Inr col \<Rightarrow> Inr (map (\<lambda>r. (country r, cell_of col r)) largest)))"

text \<open>
  \<^verbatim>\<open>create_vaccination_chart\<close> returns \<^verbatim>\<open>None\<close> when no row has vaccinations, and
  otherwise ranks the rows of the last date that has any.
\<close>

definition create_vaccination_chart :: "dataframe \<Rightarrow> dataframe option" where
  "create_vaccination_chart df =
     (let vacc_data = filter (\<lambda>r. total_vaccinations r > 0) df
      in if vacc_data = [] then None
         else
           (let latest_date = series_max (map date vacc_data);
                latest_vacc = rows_on latest_date vacc_data;
                top_vacc = nlargest_by 20 total_vaccinations latest_vacc
            in Some top_vacc))"




section \<open>Example frames\<close>

definition mk_row :: "string \<Rightarrow> day \<Rightarrow> real \<Rightarrow> real \<Rightarrow> real \<Rightarrow> real \<Rightarrow> real \<Rightarrow> row" where
  "mk_row c d tc td tv nc nd =
     \<lparr> country = c, date = d, total_cases = tc, total_deaths = td,
       total_vaccinations = tv, new_cases = nc, new_deaths = nd \<rparr>"

text \<open>Two countries on two days; vaccinations are reported on the first day only.\<close>

definition example_frame :: dataframe where
  "example_frame =
     [mk_row ''Chile'' 1 5000 100 70 40 2,
      mk_row ''Chile'' 2 5100 103 0 100 3,
      mk_row ''Peru'' 1 800 20 30 10 1,
      mk_row ''Peru'' 2 830 22 0 30 2]"



section \<open>Facts about the series operations\<close>


lemma series_max_eq_Max:
  assumes "xs \<noteq> []"
  shows "series_max xs = Some (Max (set xs))"
proof (cases xs)
  case Nil
  with assms show ?thesis by simp
next
  case (Cons x rest)
  have "Max (set (x # rest)) = fold max rest x"
    by (rule Max.set_eq_fold)
  with Cons show ?thesis
    by (simp add: series_max_def)
qed

lemma series_max_None_iff: "series_max xs = None \<longleftrightarrow> xs = []"
  by (cases xs) (simp_all add: series_max_def)




lemma rows_on_Some: "rows_on (Some d) df = filter (\<lambda>r. date r = d) df"
  by (simp add: rows_on_def)

lemma example_latest: "series_max (map date example_frame) = Some 2"
  by (simp add: example_frame_def mk_row_def series_max_def)

lemma column_unknown:
  assumes "metric \<notin> {''country'', ''date'', ''total_cases'', ''total_deaths'',
                      ''total_vaccinations'', ''new_cases'', ''new_deaths''}"
  shows "column metric = Inl (KeyError metric)"
  using assms by (simp add: column_def)

section \<open>Facts about the selection of the largest rows\<close>

lemma set_nlargest_by: "set (nlargest_by n key xs) \<subseteq> set xs"
proof -
  have "set (take n (sort_key (\<lambda>r. - key r) xs)) \<subseteq> set (sort_key (\<lambda>r. - key r) xs)"
    by (rule set_take_subset)
  then show ?thesis by (simp add: nlargest_by_def)
qed

lemma length_nlargest_by: "length (nlargest_by n key xs) = min n (length xs)"
  by (simp add: nlargest_by_def min.commute)

lemma nlargest_by_descending: "sorted (map (\<lambda>r. - key r) (nlargest_by n key xs))"
proof -
  have "sorted (map (\<lambda>r. - key r) (sort_key (\<lambda>r. - key r) xs))"
    by (rule sorted_sort_key)
  then have "sorted (take n (map (\<lambda>r. - key r) (sort_key (\<lambda>r. - key r) xs)))"
    by (rule sorted_wrt_take)
  then show ?thesis by (simp add: nlargest_by_def take_map)
qed




lemma nlargest_by_top:
  assumes "x \<in> set xs" and "x \<notin> set (nlargest_by n key xs)" and "y \<in> set (nlargest_by n key xs)"
  shows "key x \<le> key y"
proof -
  let ?f = "\<lambda>r. - key r"
  let ?s = "sort_key ?f xs"
  have "map ?f ?s = map ?f (take n ?s) @ map ?f (drop n ?s)"
    by (simp flip: map_append)
  moreover have "sorted (map ?f ?s)"
    by (rule sorted_sort_key)
  ultimately have "sorted (map ?f (take n ?s) @ map ?f (drop n ?s))"
    by (simp only:)
  then have le: "\<forall>a \<in> set (take n ?s). \<forall>b \<in> set (drop n ?s). - key a \<le> - key b"
    by (simp add: sorted_append)
  have "x \<in> set ?s"
    using assms(1) by simp
  then have "x \<in> set (take n ?s @ drop n ?s)"
    by (simp only: append_take_drop_id)
  then have "x \<in> set (take n ?s) \<or> x \<in> set (drop n ?s)"
    by (simp only: set_append Un_iff)
  moreover have "x \<notin> set (take n ?s)"
    using assms(2) unfolding nlargest_by_def .
  ultimately have "x \<in> set (drop n ?s)"
    by blast
  moreover have "y \<in> set (take n ?s)"
    using assms(3) unfolding nlargest_by_def .
  ultimately have "- key y \<le> - key x"
    using le by blast
  then show ?thesis by simp
qed

lemma nlargest_by_Nil_iff: "nlargest_by n key xs = [] \<longleftrightarrow> n = 0 \<or> xs = []"
proof -
  have "min n (length xs) = 0 \<longleftrightarrow> n = 0 \<or> xs = []"
    by (cases xs) (auto simp: min_def)
  then have "length (nlargest_by n key xs) = 0 \<longleftrightarrow> n = 0 \<or> xs = []"
    by (simp only: length_nlargest_by)
  then show ?thesis
    by (simp only: length_0_conv)
qed

section \<open>Global statistics: theorems\<close>





section \<open>Top-N ranking: theorems\<close>

text \<open>
  C3 (as the code has it). For every frame and every bound, a metric name that is not one
  of the seven columns makes \<^verbatim>\<open>create_top_countries_chart\<close> fail with pandas' \<open>KeyError\<close>
  for that name; no table, empty or not, is returned.
\<close>

theorem top_countries_unknown_metric_KeyError:
  assumes "metric \<notin> {''country'', ''date'', ''total_cases'', ''total_deaths'',
                      ''total_vaccinations'', ''new_cases'', ''new_deaths''}"
  shows "create_top_countries_chart df metric top_n = Inl (KeyError metric)"
  by (simp add: create_top_countries_chart_def Let_def nlargest_def column_unknown [OF assms])

theorem top_countries_unknown_metric_KeyError_witness:
  "''cases'' \<notin> {''country'', ''date'', ''total_cases'', ''total_deaths'',
                  ''total_vaccinations'', ''new_cases'', ''new_deaths''} \<and>
   create_top_countries_chart example_frame ''cases'' 15 = Inl (KeyError ''cases'')"
  using top_countries_unknown_metric_KeyError [of "''cases''" example_frame 15] by simp

text \<open>
  C3 (counterexample). The metric name \<^verbatim>\<open>cases\<close> is not a column; the call fails with
  \<open>KeyError\<close>, which is not the error \<open>InvalidMetric\<close>.
\<close>

theorem top_countries_unknown_metric_counterexample:
  "create_top_countries_chart example_frame ''cases'' 15 = Inl (KeyError ''cases'') \<and>
   create_top_countries_chart example_frame ''cases'' 15 \<noteq> Inl InvalidMetric"
  by (simp add: create_top_countries_chart_def Let_def nlargest_def column_def)







section \<open>Vaccination ranking: theorems\<close>

lemma vacc_rows_set:
  "set (filter (\<lambda>r. total_vaccinations r > 0) df) = {r \<in> set df. 0 < total_vaccinations r}"
  by auto

lemma create_vaccination_chart_None_iff:
  "create_vaccination_chart df = None \<longleftrightarrow> (\<forall>r \<in> set df. \<not> 0 < total_vaccinations r)"
  by (simp add: create_vaccination_chart_def Let_def filter_empty_conv)

lemma create_vaccination_chart_Some:
  assumes "create_vaccination_chart df = Some rows"
  shows "rows = nlargest_by 20 total_vaccinations
                  (filter (\<lambda>r. 0 < total_vaccinations r \<and>
                               date r = Max (date ` {r \<in> set df. 0 < total_vaccinations r})) df)"
proof -
  let ?vacc = "filter (\<lambda>r. 0 < total_vaccinations r) df"
  from assms have ne: "?vacc \<noteq> []"
    by (auto simp: create_vaccination_chart_def Let_def split: if_splits)
  then have "series_max (map date ?vacc) = Some (Max (set (map date ?vacc)))"
    by (simp add: series_max_eq_Max)
  then have "series_max (map date ?vacc) = Some (Max (date ` {r \<in> set df. 0 < total_vaccinations r}))"
    by (simp only: set_map vacc_rows_set)
  with assms ne show ?thesis
    by (simp add: create_vaccination_chart_def Let_def rows_on_Some)
qed

lemma vacc_latest_rows_nonempty:
  assumes "\<exists>r \<in> set df. 0 < total_vaccinations r"
  shows "filter (\<lambda>r. 0 < total_vaccinations r \<and>
                     date r = Max (date ` {r \<in> set df. 0 < total_vaccinations r})) df \<noteq> []"
proof -
  let ?S = "{r \<in> set df. 0 < total_vaccinations r}"
  have "finite (date ` ?S)" by simp
  moreover from assms have "date ` ?S \<noteq> {}" by auto
  ultimately have "Max (date ` ?S) \<in> date ` ?S"
    by (rule Max_in)
  then obtain r where "r \<in> ?S" and "date r = Max (date ` ?S)"
    by auto
  then show ?thesis
    by (auto simp: filter_empty_conv)
qed

text \<open>
  C10. \<^verbatim>\<open>create_vaccination_chart\<close> returns \<^verbatim>\<open>None\<close> exactly when no row has
  \<^verbatim>\<open>total_vaccinations > 0\<close>. Otherwise it returns a ranking that is not empty: the (at
  most 20) largest rows, by \<^verbatim>\<open>total_vaccinations\<close>, among the rows with vaccinations on
  the largest date that any row with vaccinations has. That date can be earlier than the
  largest date of the frame: there is a frame whose ranking has only rows before it.
\<close>

theorem vaccination_chart_own_latest_date:
  "(create_vaccination_chart df = None \<longleftrightarrow> (\<forall>r \<in> set df. \<not> 0 < total_vaccinations r)) \<and>
   (\<forall>rows. create_vaccination_chart df = Some rows \<longrightarrow>
      rows \<noteq> [] \<and>
      rows = nlargest_by 20 total_vaccinations
               (filter (\<lambda>r. 0 < total_vaccinations r \<and>
                            date r = Max (date ` {r \<in> set df. 0 < total_vaccinations r})) df) \<and>
      (\<forall>r \<in> set rows. r \<in> set df \<and> 0 < total_vaccinations r \<and>
         date r = Max (date ` {r \<in> set df. 0 < total_vaccinations r}))) \<and>
   (\<exists>frame rows. create_vaccination_chart frame = Some rows \<and>
      (\<forall>r \<in> set rows. Some (date r) \<noteq> series_max (map date frame) \<and>
                       date r < Max (date ` set frame)))"
proof (intro conjI allI impI)
  show "create_vaccination_chart df = None \<longleftrightarrow> (\<forall>r \<in> set df. \<not> 0 < total_vaccinations r)"
    by (rule create_vaccination_chart_None_iff)
next
  fix rows
  assume some: "create_vaccination_chart df = Some rows"
  let ?latest = "filter (\<lambda>r. 0 < total_vaccinations r \<and>
                     date r = Max (date ` {r \<in> set df. 0 < total_vaccinations r})) df"
  show eq: "rows = nlargest_by 20 total_vaccinations ?latest"
    using some by (rule create_vaccination_chart_Some)
  from some have "create_vaccination_chart df \<noteq> None" by simp
  then have "\<exists>r \<in> set df. 0 < total_vaccinations r"
    by (simp add: create_vaccination_chart_None_iff)
  then have "?latest \<noteq> []"
    by (rule vacc_latest_rows_nonempty)
  then show "rows \<noteq> []"
    by (simp add: eq nlargest_by_Nil_iff)
  have "set rows \<subseteq> set ?latest"
    unfolding eq by (rule set_nlargest_by)
  then show "\<forall>r \<in> set rows. r \<in> set df \<and> 0 < total_vaccinations r \<and>
         date r = Max (date ` {r \<in> set df. 0 < total_vaccinations r})"
    by auto
next
  have "create_vaccination_chart example_frame =
          Some [mk_row ''Chile'' 1 5000 100 70 40 2, mk_row ''Peru'' 1 800 20 30 10 1]"
    by (simp add: create_vaccination_chart_def Let_def example_frame_def mk_row_def
          series_max_def rows_on_def nlargest_by_def)
  moreover have "series_max (map date example_frame) = Some 2"
    by (rule example_latest)
  moreover have "Max (date ` set example_frame) = 2"
    by (simp add: example_frame_def mk_row_def)
  ultimately show "\<exists>frame rows. create_vaccination_chart frame = Some rows \<and>
      (\<forall>r \<in> set rows. Some (date r) \<noteq> series_max (map date frame) \<and>
                       date r < Max (date ` set frame))"
    by (intro exI [of _ example_frame] exI [of _ "[mk_row ''Chile'' 1 5000 100 70 40 2, mk_row ''Peru'' 1 800 20 30 10 1]"])
       (simp add: mk_row_def)
qed

theorem vaccination_chart_own_latest_date_witness:
  "create_vaccination_chart [mk_row ''Peru'' 2 830 22 0 30 2] = None \<and>
   create_vaccination_chart example_frame =
     Some [mk_row ''Chile'' 1 5000 100 70 40 2, mk_row ''Peru'' 1 800 20 30 10 1] \<and>
   date (mk_row ''Chile'' 1 5000 100 70 40 2) =
     Max (date ` {r \<in> set example_frame. 0 < total_vaccinations r}) \<and>
   series_max (map date example_frame) = Some 2"
proof -
  have n: "\<forall>r \<in> set [mk_row ''Peru'' 2 830 22 0 30 2]. \<not> 0 < total_vaccinations r"
    by (simp add: mk_row_def)
  from vaccination_chart_own_latest_date [of "[mk_row ''Peru'' 2 830 22 0 30 2]"] n
  have w1: "create_vaccination_chart [mk_row ''Peru'' 2 830 22 0 30 2] = None"
    by blast
  have v: "create_vaccination_chart example_frame =
     Some [mk_row ''Chile'' 1 5000 100 70 40 2, mk_row ''Peru'' 1 800 20 30 10 1]"
    by (simp add: create_vaccination_chart_def Let_def example_frame_def mk_row_def
          series_max_def rows_on_def nlargest_by_def)
  from vaccination_chart_own_latest_date [of example_frame] v
  have "\<forall>r \<in> set [mk_row ''Chile'' 1 5000 100 70 40 2, mk_row ''Peru'' 1 800 20 30 10 1].
          r \<in> set example_frame \<and> 0 < total_vaccinations r \<and>
          date r = Max (date ` {r \<in> set example_frame. 0 < total_vaccinations r})"
    by blast
  then have w2: "date (mk_row ''Chile'' 1 5000 100 70 40 2) =
     Max (date ` {r \<in> set example_frame. 0 < total_vaccinations r})"
    by simp
  from w1 v w2 example_latest show ?thesis
    by (simp only: simp_thms)
qed

section \<open>Filtering: theorems\<close>

lemma df_filtered_pair:
  "df_filtered df [s, e] = filter (\<lambda>r. s \<le> date r \<and> date r \<le> e) df"
  by (simp add: df_filtered_def)

text \<open>
  C6. For every frame and every interval of two dates, the date filter of \<^verbatim>\<open>main\<close>
  returns exactly the rows whose date lies in the interval, both ends included; followed
  by the country selection of \<^verbatim>\<open>create_country_comparison_chart\<close> it returns exactly
  the rows that are also of a selected country. Either result is a subsequence of the
  frame (the rows that match, in their order), and when no row matches the result is the
  empty frame, not an error.
\<close>

theorem filter_exact_rows_in_order:
  "df_filtered df [s, e] = filter (\<lambda>r. s \<le> date r \<and> date r \<le> e) df \<and>
   country_data (df_filtered df [s, e]) cs =
     filter (\<lambda>r. s \<le> date r \<and> date r \<le> e \<and> country r \<in> set cs) df \<and>
   subseq (df_filtered df [s, e]) df \<and>
   subseq (country_data (df_filtered df [s, e]) cs) df \<and>
   ((\<forall>r \<in> set df. \<not> (s \<le> date r \<and> date r \<le> e)) \<longrightarrow> df_filtered df [s, e] = []) \<and>
   ((\<forall>r \<in> set df. \<not> (s \<le> date r \<and> date r \<le> e \<and> country r \<in> set cs)) \<longrightarrow>
      country_data (df_filtered df [s, e]) cs = [])"
proof -
  have a: "df_filtered df [s, e] = filter (\<lambda>r. s \<le> date r \<and> date r \<le> e) df"
    by (rule df_filtered_pair)
  have b: "country_data (df_filtered df [s, e]) cs =
     filter (\<lambda>r. s \<le> date r \<and> date r \<le> e \<and> country r \<in> set cs) df"
    by (simp add: a country_data_def conj_commute conj_left_commute)
  have c: "subseq (df_filtered df [s, e]) df"
    by (simp add: a)
  have d: "subseq (country_data (df_filtered df [s, e]) cs) df"
    by (simp add: b)
  have e: "(\<forall>r \<in> set df. \<not> (s \<le> date r \<and> date r \<le> e)) \<longrightarrow> df_filtered df [s, e] = []"
    by (simp add: a filter_empty_conv)
  have f: "(\<forall>r \<in> set df. \<not> (s \<le> date r \<and> date r \<le> e \<and> country r \<in> set cs)) \<longrightarrow>
      country_data (df_filtered df [s, e]) cs = []"
    by (simp add: b filter_empty_conv)
  from a b c d e f show ?thesis by blast
qed

theorem filter_exact_rows_in_order_witness:
  "df_filtered example_frame [2, 5] =
     [mk_row ''Chile'' 2 5100 103 0 100 3, mk_row ''Peru'' 2 830 22 0 30 2] \<and>
   country_data (df_filtered example_frame [2, 5]) [''Peru''] = [mk_row ''Peru'' 2 830 22 0 30 2] \<and>
   subseq [mk_row ''Peru'' 2 830 22 0 30 2] example_frame \<and>
   df_filtered example_frame [3, 5] = [] \<and>
   country_data (df_filtered example_frame [3, 5]) [''Peru''] = []"
proof -
  have none: "\<forall>r \<in> set example_frame. \<not> (3 \<le> date r \<and> date r \<le> 5)"
    by (simp add: example_frame_def mk_row_def)
  have none': "\<forall>r \<in> set example_frame. \<not> (3 \<le> date r \<and> date r \<le> 5 \<and> country r \<in> set [''Peru''])"
    by (simp add: example_frame_def mk_row_def)
  have v1: "filter (\<lambda>r. 2 \<le> date r \<and> date r \<le> 5) example_frame =
     [mk_row ''Chile'' 2 5100 103 0 100 3, mk_row ''Peru'' 2 830 22 0 30 2]"
    by (simp add: example_frame_def mk_row_def)
  have v2: "filter (\<lambda>r. 2 \<le> date r \<and> date r \<le> 5 \<and> country r \<in> set [''Peru'']) example_frame =
     [mk_row ''Peru'' 2 830 22 0 30 2]"
    by (simp add: example_frame_def mk_row_def)
  note t = filter_exact_rows_in_order [of example_frame 2 5 "[''Peru'']"]
  from t have "df_filtered example_frame [2, 5] =
      filter (\<lambda>r. 2 \<le> date r \<and> date r \<le> 5) example_frame"
    by blast
  with v1 have p1: "df_filtered example_frame [2, 5] =
     [mk_row ''Chile'' 2 5100 103 0 100 3, mk_row ''Peru'' 2 830 22 0 30 2]"
    by (simp only:)
  from t have "country_data (df_filtered example_frame [2, 5]) [''Peru''] =
      filter (\<lambda>r. 2 \<le> date r \<and> date r \<le> 5 \<and> country r \<in> set [''Peru'']) example_frame"
    by blast
  with v2 have p2: "country_data (df_filtered example_frame [2, 5]) [''Peru''] =
      [mk_row ''Peru'' 2 830 22 0 30 2]"
    by (simp only:)
  from t have "subseq (country_data (df_filtered example_frame [2, 5]) [''Peru'']) example_frame"
    by blast
  with p2 have p3: "subseq [mk_row ''Peru'' 2 830 22 0 30 2] example_frame"
    by (simp only:)
  from filter_exact_rows_in_order [of example_frame 3 5 "[''Peru'']"] none none'
  have p4: "df_filtered example_frame [3, 5] = []"
    and p5: "country_data (df_filtered example_frame [3, 5]) [''Peru''] = []"
    by blast+
  from p1 p2 p3 p4 p5 show ?thesis by (simp only: simp_thms)
qed

section \<open>Order among ties: theorems\<close>





lemma subseq_rows_on: "subseq (rows_on d df) df"
  by (simp add: rows_on_def)





section \<open>Case-fatality ranking: theorems\<close>




section \<open>Global daily trend: theorems\<close>

















end
